theory Spec2Isabelle
  imports Complex_Main
begin

section \<open>Data model\<close>

text \<open>
  The service \<^verbatim>\<open>OrdersService\<close> (\<^verbatim>\<open>orders.service.ts\<close>) sits between three
  collaborators: the Prisma client it extends (the order store), the NATS client it sends
  \<^verbatim>\<open>validate_products\<close> requests through (the product catalog), and its callers.
\<close>

section \<open>JavaScript numbers\<close>

text \<open>
  A JavaScript number is an IEEE 754 binary64 value: a finite double, an infinity or
  \<^verbatim>\<open>NaN\<close>. A finite double is modelled by the real it denotes; the two zeros, which
  \<^verbatim>\<open>===\<close> and \<^verbatim>\<open>+\<close> from \<open>0\<close> do not tell apart, are one. A price is a finite
  double and a quantity an integer that a double holds exactly.
\<close>

datatype number = Num real | PosInfinity | NegInfinity | NaN

text \<open>
  The binary exponent \<open>\<lfloor>log\<^sub>2 x\<rfloor>\<close> of a positive \<open>x\<close>, by halving or doubling at most
  \<open>n\<close> times; 1100 steps reach every exponent a double can have.
\<close>

primrec log2_floor :: "nat \<Rightarrow> real \<Rightarrow> int" where
  "log2_floor 0 x = 0"
| "log2_floor (Suc n) x =
     (if 2 \<le> x then log2_floor n (x / 2) + 1
      else if x < 1 then log2_floor n (2 * x) - 1
      else 0)"

text \<open>Rounding to the nearest integer, a tie to the even one.\<close>

definition round_half_even :: "real \<Rightarrow> int" where
  "round_half_even z =
     (let f = \<lfloor>z\<rfloor>; r = z - of_int f
      in if r < 1 / 2 then f else if 1 / 2 < r then f + 1 else if even f then f else f + 1)"

definition scale2 :: "real \<Rightarrow> int \<Rightarrow> real" where
  "scale2 x e = (if 0 \<le> e then x * 2 ^ nat e else x / 2 ^ nat (- e))"

text \<open>
  Rounding a real to 53 significant bits, to nearest and ties to even, with the
  exponent held at the least one of the format for subnormal results.
\<close>

definition round_double :: "real \<Rightarrow> real" where
  "round_double x =
     (let e = max (log2_floor 1100 \<bar>x\<bar>) (- 1022) - 52;
          m = round_half_even (scale2 \<bar>x\<bar> (- e))
      in sgn x * scale2 (of_int m) e)"

text \<open>The number an exact result becomes: rounded, and an infinity beyond the range.\<close>

definition to_number :: "real \<Rightarrow> number" where
  "to_number x =
     (let y = round_double x
      in if 2 ^ 1024 \<le> y then PosInfinity
         else if y \<le> - (2 ^ 1024) then NegInfinity
         else Num y)"

text \<open>\<^verbatim>\<open>a * b\<close> for finite \<open>a\<close> and \<open>b\<close>, and \<^verbatim>\<open>a + b\<close>.\<close>

definition times_number :: "real \<Rightarrow> real \<Rightarrow> number" where
  "times_number a b = to_number (a * b)"

fun plus_number :: "number \<Rightarrow> number \<Rightarrow> number" where
  "plus_number NaN b = NaN"
| "plus_number a NaN = NaN"
| "plus_number PosInfinity NegInfinity = NaN"
| "plus_number NegInfinity PosInfinity = NaN"
| "plus_number PosInfinity b = PosInfinity"
| "plus_number a PosInfinity = PosInfinity"
| "plus_number NegInfinity b = NegInfinity"
| "plus_number a NegInfinity = NegInfinity"
| "plus_number (Num x) (Num y) = to_number (x + y)"

section \<open>Records\<close>

text \<open>
  Modelled from the spec: the closed enumeration of the recognised status values. The
  service imports \<^verbatim>\<open>OrderStatus\<close> from the generated Prisma client and writes
  the literal \<^verbatim>\<open>'PAID'\<close>.
\<close>

datatype OrderStatus = PENDING | PAID | DELIVERED | CANCELLED

text \<open>An entry of the catalog reply, \<^verbatim>\<open>{id, name, price}\<close>.\<close>

record Product =
  id_product :: string
  name_product :: string
  price_product :: real

text \<open>
  A requested line \<^verbatim>\<open>{productId, quantity}\<close>; the selected columns of a stored line
  add the price; the line returned to the caller adds the name.
\<close>

record OrderItemDto =
  productId :: string
  quantity :: int

record OrderItem = OrderItemDto +
  price :: real

record OrderItemWithName = OrderItem +
  name :: string

record CreateOrderDto =
  items :: "OrderItemDto list"

text \<open>
  Modelled from the spec: the scalar columns of an order. The service writes
  \<^verbatim>\<open>totalAmount\<close>, \<^verbatim>\<open>totalItems\<close>, \<^verbatim>\<open>status\<close>, \<^verbatim>\<open>paid\<close>,
  \<^verbatim>\<open>paidAt\<close> and \<^verbatim>\<open>stripeChargeId\<close>; the id and the creation time are the
  store's. An order together with its lines is what \<^verbatim>\<open>include: { OrderItem: ... }\<close>
  returns. Times are clock readings.
\<close>

record Order =
  id_order :: string
  totalAmount :: number
  totalItems :: int
  status :: OrderStatus
  paid :: bool
  paidAt :: "nat option"
  stripeChargeId :: "string option"
  createdAt :: nat

record 'i OrderWith = Order +
  OrderItem :: "'i list"

text \<open>The payload of an \<^verbatim>\<open>RpcException\<close>: \<^verbatim>\<open>{message, status}\<close>.\<close>

record RpcError =
  message :: string
  status_code :: nat

datatype prisma_error = UniqueConstraintFailed | RecordNotFound

datatype error =
    RpcException RpcError
  | TypeError string
  | PrismaError prisma_error
  | ValidationError

text \<open>What the NATS client has been asked to send.\<close>

datatype nats_msg = validate_products "string list"

text \<open>
  The catalog answers a \<^verbatim>\<open>validate_products\<close> request with a list of products or
  with an error payload. It is a parameter of every operation that calls it.
\<close>

type_synonym catalog = "string list \<Rightarrow> RpcError + Product list"

text \<open>
  Modelled from the spec: the Order Store, which the service reaches through the Prisma
  client it extends. The store holds the orders in insertion order, the lines of every
  order keyed by the id of their order, and the receipts as pairs of an order id and a
  receipt URL.
\<close>

record store =
  Order_tbl :: "Order list"
  OrderItem_tbl :: "(string \<times> OrderItem) list"
  OrderReceipt_tbl :: "(string \<times> string) list"

record world =
  db :: store
  sent :: "nats_msg list"

definition HttpStatus_NOT_FOUND :: nat where
  "HttpStatus_NOT_FOUND = 404"

section \<open>The store\<close>

definition include_OrderItem :: "Order \<Rightarrow> 'i list \<Rightarrow> 'i OrderWith" where
  "include_OrderItem ord its =
     \<lparr> id_order = id_order ord, totalAmount = totalAmount ord, totalItems = totalItems ord,
       status = status ord, paid = paid ord, paidAt = paidAt ord,
       stripeChargeId = stripeChargeId ord, createdAt = createdAt ord, OrderItem = its \<rparr>"

definition items_of :: "store \<Rightarrow> string \<Rightarrow> OrderItem list" where
  "items_of s i = map snd (filter (\<lambda>row. fst row = i) (OrderItem_tbl s))"

text \<open>
  Modelled from the spec: \<^verbatim>\<open>createOrderWithItems\<close>, atomic. A new order starts
  \<^const>\<open>PENDING\<close> and unpaid. The id is the store's \<^verbatim>\<open>uuid()\<close> draw and the
  creation time its clock; an id already in use is a primary key conflict and nothing is
  written.
\<close>

definition order_create ::
  "store \<Rightarrow> string \<Rightarrow> nat \<Rightarrow> number \<Rightarrow> int \<Rightarrow> OrderItem list \<Rightarrow> error + (OrderItem OrderWith \<times> store)" where
  "order_create s newId now amount n its =
     (if newId \<in> set (map id_order (Order_tbl s)) then Inl (PrismaError UniqueConstraintFailed)
      else
        let ord = \<lparr> id_order = newId, totalAmount = amount, totalItems = n, status = PENDING,
                    paid = False, paidAt = None, stripeChargeId = None, createdAt = now \<rparr>
        in Inr (include_OrderItem ord its,
                s\<lparr> Order_tbl := Order_tbl s @ [ord],
                   OrderItem_tbl := OrderItem_tbl s @ map (Pair newId) its \<rparr>))"

text \<open>Modelled from the spec: \<^verbatim>\<open>findById\<close>, the order with its lines, or nothing.\<close>

definition order_findFirst :: "store \<Rightarrow> string \<Rightarrow> OrderItem OrderWith option" where
  "order_findFirst s i =
     (case find (\<lambda>ord. id_order ord = i) (Order_tbl s) of
        None \<Rightarrow> None
      | Some ord \<Rightarrow> Some (include_OrderItem ord (items_of s i)))"

section \<open>The catalog client\<close>

text \<open>
  \<^verbatim>\<open>firstValueFrom(natsClient.send({cmd: 'validate_products'}, {ids}).pipe(catchError(...)))\<close>:
  the request is sent, and a failure of the catalog is rethrown as an \<^verbatim>\<open>RpcException\<close>
  carrying the catalog's payload.
\<close>

definition send_validate_products ::
  "catalog \<Rightarrow> string list \<Rightarrow> world \<Rightarrow> (error + Product list) \<times> world" where
  "send_validate_products cat ids w =
     ((case cat ids of Inl err \<Rightarrow> Inl (RpcException err) | Inr products \<Rightarrow> Inr products),
      w\<lparr> sent := sent w @ [validate_products ids] \<rparr>)"

text \<open>
  \<^verbatim>\<open>products.find(product => product.id === productId).price\<close> and the same with
  \<^verbatim>\<open>.name\<close>: \<^verbatim>\<open>find\<close> gives \<^verbatim>\<open>undefined\<close> when no product has the id, and
  reading a property of \<^verbatim>\<open>undefined\<close> throws a \<^verbatim>\<open>TypeError\<close>.
\<close>

definition find_price :: "Product list \<Rightarrow> string \<Rightarrow> error + real" where
  "find_price products pid =
     (case find (\<lambda>product. id_product product = pid) products of
        None \<Rightarrow> Inl (TypeError ''Cannot read properties of undefined (reading 'price')'')
      | Some product \<Rightarrow> Inr (price_product product))"

definition find_name :: "Product list \<Rightarrow> string \<Rightarrow> error + string" where
  "find_name products pid =
     (case find (\<lambda>product. id_product product = pid) products of
        None \<Rightarrow> Inl (TypeError ''Cannot read properties of undefined (reading 'name')'')
      | Some product \<Rightarrow> Inr (name_product product))"

text \<open>\<^verbatim>\<open>Array.prototype.map\<close> with a callback that may throw: the first throw ends it.\<close>

fun mapE :: "('a \<Rightarrow> error + 'b) \<Rightarrow> 'a list \<Rightarrow> error + 'b list" where
  "mapE f [] = Inr []"
| "mapE f (x # xs) =
     (case f x of
        Inl e \<Rightarrow> Inl e
      | Inr y \<Rightarrow> (case mapE f xs of Inl e \<Rightarrow> Inl e | Inr ys \<Rightarrow> Inr (y # ys)))"

section \<open>create\<close>

text \<open>
  The \<^verbatim>\<open>reduce\<close> that computes \<^verbatim>\<open>totalAmount\<close>, from the accumulator \<open>acc\<close>:
  \<^verbatim>\<open>acc + (price * orderItem.quantity)\<close>, a product and a sum of doubles.
\<close>

fun totalAmount_reduce :: "Product list \<Rightarrow> number \<Rightarrow> OrderItemDto list \<Rightarrow> error + number" where
  "totalAmount_reduce products acc [] = Inr acc"
| "totalAmount_reduce products acc (orderItem # rest) =
     (case find_price products (productId orderItem) of
        Inl e \<Rightarrow> Inl e
      | Inr pr \<Rightarrow>
          totalAmount_reduce products
            (plus_number acc (times_number pr (of_int (quantity orderItem)))) rest)"

definition totalItems_reduce :: "OrderItemDto list \<Rightarrow> int" where
  "totalItems_reduce its = foldl (\<lambda>acc orderItem. acc + quantity orderItem) 0 its"

definition priced :: "Product list \<Rightarrow> OrderItemDto \<Rightarrow> error + OrderItem" where
  "priced products item =
     (case find_price products (productId item) of
        Inl e \<Rightarrow> Inl e
      | Inr pr \<Rightarrow> Inr \<lparr> productId = productId item, quantity = quantity item, price = pr \<rparr>)"

definition named :: "Product list \<Rightarrow> OrderItem \<Rightarrow> error + OrderItemWithName" where
  "named products orderItem =
     (case find_name products (productId orderItem) of
        Inl e \<Rightarrow> Inl e
      | Inr n \<Rightarrow> Inr \<lparr> productId = productId orderItem, quantity = quantity orderItem,
                       price = price orderItem, name = n \<rparr>)"

text \<open>\<^verbatim>\<open>{...order, OrderItem: order.OrderItem.map(...)}\<close>\<close>

definition merge_names ::
  "Product list \<Rightarrow> OrderItem OrderWith \<Rightarrow> error + OrderItemWithName OrderWith" where
  "merge_names products ord =
     (case mapE (named products) (OrderItem ord) of
        Inl e \<Rightarrow> Inl e
      | Inr its \<Rightarrow> Inr (include_OrderItem (Order.truncate ord) its))"

definition create ::
  "catalog \<Rightarrow> string \<Rightarrow> nat \<Rightarrow> world \<Rightarrow> CreateOrderDto \<Rightarrow> (error + OrderItemWithName OrderWith) \<times> world" where
  "create cat newId now w createOrderDto =
     (let ids = map productId (items createOrderDto) in
      case send_validate_products cat ids w of
        (Inl e, w1) \<Rightarrow> (Inl e, w1)
      | (Inr products, w1) \<Rightarrow>
          (case totalAmount_reduce products (Num 0) (items createOrderDto) of
             Inl e \<Rightarrow> (Inl e, w1)
           | Inr amount \<Rightarrow>
               (let n = totalItems_reduce (items createOrderDto) in
                case mapE (priced products) (items createOrderDto) of
                  Inl e \<Rightarrow> (Inl e, w1)
                | Inr its \<Rightarrow>
                    (case order_create (db w1) newId now amount n its of
                       Inl e \<Rightarrow> (Inl e, w1)
                     | Inr (ord, s) \<Rightarrow> (merge_names products ord, w1\<lparr> db := s \<rparr>)))))"

section \<open>findAll\<close>

text \<open>
  \<^verbatim>\<open>PaginationDto\<close>: \<^verbatim>\<open>page\<close> (default 1) and \<^verbatim>\<open>limit\<close> (default 10) carry
  \<^verbatim>\<open>@IsPositive()\<close>; \<^verbatim>\<open>status\<close> is optional.
\<close>

record PaginationDto =
  page :: int
  limit :: int
  status_filter :: "OrderStatus option"

definition PaginationDto_of ::
  "int option \<Rightarrow> int option \<Rightarrow> OrderStatus option \<Rightarrow> PaginationDto" where
  "PaginationDto_of p l st =
     \<lparr> page = (case p of None \<Rightarrow> 1 | Some n \<Rightarrow> n),
       limit = (case l of None \<Rightarrow> 10 | Some n \<Rightarrow> n),
       status_filter = st \<rparr>"

record Meta =
  page_meta :: int
  total_meta :: int
  lastPage :: int

record FindAllResult =
  data :: "Order list"
  meta :: Meta

text \<open>\<^verbatim>\<open>where: { status }\<close>: an undefined status filters nothing.\<close>

definition where_status :: "OrderStatus option \<Rightarrow> Order \<Rightarrow> bool" where
  "where_status st ord = (case st of None \<Rightarrow> True | Some s \<Rightarrow> status ord = s)"

text \<open>
  Modelled from the spec: \<^verbatim>\<open>listByStatus\<close>, as the two store calls the service makes.
  The orders come in the store's order, here the order of insertion.
\<close>

definition order_count :: "store \<Rightarrow> OrderStatus option \<Rightarrow> int" where
  "order_count s st = int (length (filter (where_status st) (Order_tbl s)))"

text \<open>Modelled from the spec: the page of \<^verbatim>\<open>listByStatus\<close>, \<^verbatim>\<open>skip\<close> then \<^verbatim>\<open>take\<close>.\<close>

definition order_findMany :: "store \<Rightarrow> OrderStatus option \<Rightarrow> int \<Rightarrow> int \<Rightarrow> Order list" where
  "order_findMany s st skip tk = take (nat tk) (drop (nat skip) (filter (where_status st) (Order_tbl s)))"

text \<open>
  A payload whose \<^verbatim>\<open>page\<close> or \<^verbatim>\<open>limit\<close> is not positive fails the validation of
  \<^verbatim>\<open>PaginationDto\<close> and never reaches the body of \<^verbatim>\<open>findAll\<close>; the first branch
  stands for that rejection. \<^verbatim>\<open>Math.ceil(totalPages/limit)\<close> divides as numbers and
  rounds up.
\<close>

definition findAll :: "world \<Rightarrow> PaginationDto \<Rightarrow> error + FindAllResult" where
  "findAll w paginationDto =
     (if page paginationDto \<le> 0 \<or> limit paginationDto \<le> 0 then Inl ValidationError
      else
        let totalPages = order_count (db w) (status_filter paginationDto);
            pages = \<lceil>real_of_int totalPages / real_of_int (limit paginationDto)\<rceil>
        in Inr \<lparr> data = order_findMany (db w) (status_filter paginationDto)
                            ((page paginationDto - 1) * limit paginationDto) (limit paginationDto),
                 meta = \<lparr> page_meta = page paginationDto, total_meta = totalPages,
                          lastPage = pages \<rparr> \<rparr>)"

section \<open>findOne\<close>

definition findOne ::
  "catalog \<Rightarrow> world \<Rightarrow> string \<Rightarrow> (error + OrderItemWithName OrderWith) \<times> world" where
  "findOne cat w i =
     (case order_findFirst (db w) i of
        None \<Rightarrow>
          (Inl (RpcException \<lparr> message = ''Order with id '' @ i @ '' not found'',
                                status_code = HttpStatus_NOT_FOUND \<rparr>), w)
      | Some ord \<Rightarrow>
          (let productsIds = map productId (OrderItem ord) in
           case send_validate_products cat productsIds w of
             (Inl e, w1) \<Rightarrow> (Inl e, w1)
           | (Inr products, w1) \<Rightarrow> (merge_names products ord, w1)))"

section \<open>changeStatus and paidOrder\<close>

record ChangeOrderStatus =
  id_dto :: string
  status_dto :: OrderStatus

record PaidOrderDto =
  stripePaymentId :: string
  orderId :: string
  receiptUrl :: string

fun update_first :: "('a \<Rightarrow> bool) \<Rightarrow> ('a \<Rightarrow> 'a) \<Rightarrow> 'a list \<Rightarrow> 'a list" where
  "update_first P f [] = []"
| "update_first P f (x # xs) = (if P x then f x # xs else x # update_first P f xs)"

text \<open>
  Modelled from the spec: \<^verbatim>\<open>updateStatus\<close> and \<^verbatim>\<open>recordPayment\<close>, both one
  \<^verbatim>\<open>order.update({where: {id}, data})\<close> for the service. The update is atomic. It
  fails when no order has the id. With a nested \<^verbatim>\<open>OrderReceipt: {create: ...}\<close> it
  also writes the receipt; an order owns at most one receipt, so creating a second one is
  a conflict, which the store rejects, writing nothing.
\<close>

definition order_update ::
  "store \<Rightarrow> string \<Rightarrow> (Order \<Rightarrow> Order) \<Rightarrow> string option \<Rightarrow> error + (Order \<times> store)" where
  "order_update s i f receipt =
     (case find (\<lambda>ord. id_order ord = i) (Order_tbl s) of
        None \<Rightarrow> Inl (PrismaError RecordNotFound)
      | Some ord \<Rightarrow>
          (let s1 = s\<lparr> Order_tbl := update_first (\<lambda>ord. id_order ord = i) f (Order_tbl s) \<rparr> in
           case receipt of
             None \<Rightarrow> Inr (f ord, s1)
           | Some url \<Rightarrow>
               if i \<in> set (map fst (OrderReceipt_tbl s)) then Inl (PrismaError UniqueConstraintFailed)
               else Inr (f ord, s1\<lparr> OrderReceipt_tbl := OrderReceipt_tbl s @ [(i, url)] \<rparr>)))"

text \<open>
  \<^verbatim>\<open>changeStatus\<close> returns the order with its named lines when nothing changes, and the
  bare updated order otherwise.
\<close>

datatype changeStatus_result =
    Unchanged "OrderItemWithName OrderWith"
  | Updated Order

definition changeStatus ::
  "catalog \<Rightarrow> world \<Rightarrow> ChangeOrderStatus \<Rightarrow> (error + changeStatus_result) \<times> world" where
  "changeStatus cat w changeOrderStatus =
     (case findOne cat w (id_dto changeOrderStatus) of
        (Inl e, w1) \<Rightarrow> (Inl e, w1)
      | (Inr ord, w1) \<Rightarrow>
          if status ord = status_dto changeOrderStatus then (Inr (Unchanged ord), w1)
          else
            (case order_update (db w1) (id_dto changeOrderStatus)
                    (\<lambda>row. row\<lparr> status := status_dto changeOrderStatus \<rparr>) None of
               Inl e \<Rightarrow> (Inl e, w1)
             | Inr (row, s) \<Rightarrow> (Inr (Updated row), w1\<lparr> db := s \<rparr>)))"

text \<open>\<open>now\<close> is the reading of the clock, \<^verbatim>\<open>new Date()\<close>.\<close>

definition paidOrder :: "nat \<Rightarrow> world \<Rightarrow> PaidOrderDto \<Rightarrow> (error + Order) \<times> world" where
  "paidOrder now w paidOrderDto =
     (case order_update (db w) (orderId paidOrderDto)
             (\<lambda>row. row\<lparr> status := PAID, paid := True, paidAt := Some now,
                          stripeChargeId := Some (stripePaymentId paidOrderDto) \<rparr>)
             (Some (receiptUrl paidOrderDto)) of
        Inl e \<Rightarrow> (Inl e, w)
      | Inr (ord, s) \<Rightarrow> (Inr ord, w\<lparr> db := s \<rparr>))"

section \<open>Reference definitions\<close>

text \<open>
  What the statements below are measured against: the price and the name the catalog reply
  gives for a product id (those of the first entry with that id; \<open>0\<close> and the empty name
  stand for an id the reply does not have), the class of client errors, and the orders
  a listing filter selects.
\<close>

fun catalog_price :: "Product list \<Rightarrow> string \<Rightarrow> real" where
  "catalog_price [] pid = 0"
| "catalog_price (p # ps) pid = (if id_product p = pid then price_product p else catalog_price ps pid)"

fun catalog_name :: "Product list \<Rightarrow> string \<Rightarrow> string" where
  "catalog_name [] pid = []"
| "catalog_name (p # ps) pid = (if id_product p = pid then name_product p else catalog_name ps pid)"





definition client_error_class :: "error + 'a \<Rightarrow> bool" where
  "client_error_class r =
     (case r of
        Inl (RpcException e) \<Rightarrow> 400 \<le> status_code e \<and> status_code e < 500
      | _ \<Rightarrow> False)"

definition matching :: "world \<Rightarrow> OrderStatus option \<Rightarrow> Order list" where
  "matching w st = filter (where_status st) (Order_tbl (db w))"


text \<open>The stored order with the catalog's names merged into its lines.\<close>

definition with_names :: "Product list \<Rightarrow> OrderItem OrderWith \<Rightarrow> OrderItemWithName OrderWith" where
  "with_names products ord =
     include_OrderItem (Order.truncate ord)
       (map (\<lambda>it. \<lparr> productId = productId it, quantity = quantity it, price = price it,
                    name = catalog_name products (productId it) \<rparr>) (OrderItem ord))"

section \<open>Example data\<close>

definition ex_world0 :: world where
  "ex_world0 = \<lparr> db = \<lparr> Order_tbl = [], OrderItem_tbl = [], OrderReceipt_tbl = [] \<rparr>, sent = [] \<rparr>"

definition ex_products :: "Product list" where
  "ex_products = [\<lparr> id_product = ''p1'', name_product = ''Widget'', price_product = 5 \<rparr>]"

definition ex_catalog :: catalog where
  "ex_catalog ids = Inr ex_products"

text \<open>The double nearest to \<open>0.1\<close>, and a catalog that prices a product at it.\<close>

definition ex_tenth :: real where
  "ex_tenth = 3602879701896397 / 36028797018963968"


definition ex_order :: "nat \<Rightarrow> Order" where
  "ex_order k = \<lparr> id_order = replicate (Suc k) CHR ''o'', totalAmount = Num 1, totalItems = 1, status = PENDING,
                  paid = False, paidAt = None, stripeChargeId = None, createdAt = k \<rparr>"

definition ex_world25 :: world where
  "ex_world25 = \<lparr> db = \<lparr> Order_tbl = map ex_order [0..<25], OrderItem_tbl = [], OrderReceipt_tbl = [] \<rparr>, sent = [] \<rparr>"


definition ex_stored :: Order where
  "ex_stored = \<lparr> id_order = ''o1'', totalAmount = Num 10, totalItems = 2, status = PENDING,
                 paid = False, paidAt = None, stripeChargeId = None, createdAt = 0 \<rparr>"

definition ex_world1 :: world where
  "ex_world1 = \<lparr> db = \<lparr> Order_tbl = [ex_stored],
                         OrderItem_tbl = [(''o1'', \<lparr> productId = ''p1'', quantity = 2, price = 5 \<rparr>)],
                         OrderReceipt_tbl = [] \<rparr>, sent = [] \<rparr>"

definition ex_paid :: PaidOrderDto where
  "ex_paid = \<lparr> stripePaymentId = ''ch_1'', orderId = ''o1'', receiptUrl = ''https://pay.example/r/1'' \<rparr>"

definition ex_catalog_later :: catalog where
  "ex_catalog_later ids = Inr [\<lparr> id_product = ''p1'', name_product = ''Gadget'', price_product = 9 \<rparr>]"

definition ex_found :: "OrderItem OrderWith" where
  "ex_found = include_OrderItem ex_stored [\<lparr> productId = ''p1'', quantity = 2, price = 5 \<rparr>]"

definition ex_paid_order :: Order where
  "ex_paid_order = \<lparr> id_order = ''o1'', totalAmount = Num 10, totalItems = 2, status = PAID,
                     paid = True, paidAt = Some 1, stripeChargeId = Some ''ch_1'', createdAt = 0 \<rparr>"

definition ex_world1_paid :: world where
  "ex_world1_paid = \<lparr> db = \<lparr> Order_tbl = [ex_paid_order],
                              OrderItem_tbl = [(''o1'', \<lparr> productId = ''p1'', quantity = 2, price = 5 \<rparr>)],
                              OrderReceipt_tbl = [(''o1'', ''https://pay.example/r/1'')] \<rparr>, sent = [] \<rparr>"

definition ex_catalog_drifted :: catalog where
  "ex_catalog_drifted ids = Inr []"

section \<open>Lemmas on the catalog lookups and the store\<close>

lemma find_price_known:
  "pid \<in> id_product ` set products \<Longrightarrow> find_price products pid = Inr (catalog_price products pid)"
  by (induction products) (auto simp: find_price_def)

lemma find_price_unknown:
  "pid \<notin> id_product ` set products \<Longrightarrow>
   find_price products pid = Inl (TypeError ''Cannot read properties of undefined (reading 'price')'')"
  by (induction products) (auto simp: find_price_def)

lemma find_name_known:
  "pid \<in> id_product ` set products \<Longrightarrow> find_name products pid = Inr (catalog_name products pid)"
  by (induction products) (auto simp: find_name_def)

lemma find_name_unknown:
  "pid \<notin> id_product ` set products \<Longrightarrow>
   find_name products pid = Inl (TypeError ''Cannot read properties of undefined (reading 'name')'')"
  by (induction products) (auto simp: find_name_def)

lemma totalAmount_reduce_unknown:
  "\<exists>it\<in>set its. productId it \<notin> id_product ` set products \<Longrightarrow>
   totalAmount_reduce products acc its =
     Inl (TypeError ''Cannot read properties of undefined (reading 'price')'')"
proof (induction its arbitrary: acc)
  case Nil
  then show ?case by simp
next
  case (Cons it its)
  show ?case
  proof (cases "productId it \<in> id_product ` set products")
    case True
    with Cons.prems have "\<exists>it\<in>set its. productId it \<notin> id_product ` set products" by auto
    with Cons.IH True show ?thesis by (simp add: find_price_known)
  next
    case False
    then show ?thesis by (simp add: find_price_unknown)
  qed
qed

lemma totalAmount_reduce_known:
  "\<forall>it\<in>set its. productId it \<in> id_product ` set products \<Longrightarrow>
   totalAmount_reduce products acc its =
     Inr (foldl (\<lambda>acc it. plus_number acc
                  (times_number (catalog_price products (productId it)) (of_int (quantity it))))
            acc its)"
  by (induction its arbitrary: acc) (simp_all add: find_price_known)



text \<open>Rounding at work: \<open>0.1\<close> is not a double and goes to the nearest one.\<close>

lemma to_number_one_tenth: "to_number (1 / 10) = Num ex_tenth"
  by code_simp





lemma foldl_quantity: "foldl (\<lambda>acc orderItem. acc + quantity orderItem) a its = a + (\<Sum>it\<leftarrow>its. quantity it)"
  by (induction its arbitrary: a) simp_all

lemma totalItems_reduce_sum: "totalItems_reduce its = (\<Sum>it\<leftarrow>its. quantity it)"
  by (simp add: totalItems_reduce_def foldl_quantity)

lemma mapE_priced_known:
  "\<forall>it\<in>set its. productId it \<in> id_product ` set products \<Longrightarrow>
   mapE (priced products) its =
     Inr (map (\<lambda>it. \<lparr> productId = productId it, quantity = quantity it,
                       price = catalog_price products (productId it) \<rparr>) its)"
  by (induction its) (simp_all add: priced_def find_price_known)

lemma mapE_named_known:
  "\<forall>it\<in>set its. productId it \<in> id_product ` set products \<Longrightarrow>
   mapE (named products) its =
     Inr (map (\<lambda>it. \<lparr> productId = productId it, quantity = quantity it, price = price it,
                       name = catalog_name products (productId it) \<rparr>) its)"
  by (induction its) (simp_all add: named_def find_name_known)

lemma mapE_named_unknown:
  "\<exists>it\<in>set its. productId it \<notin> id_product ` set products \<Longrightarrow>
   mapE (named products) its =
     Inl (TypeError ''Cannot read properties of undefined (reading 'name')'')"
proof (induction its)
  case Nil
  then show ?case by simp
next
  case (Cons it its)
  show ?case
  proof (cases "productId it \<in> id_product ` set products")
    case True
    with Cons.prems have "\<exists>it\<in>set its. productId it \<notin> id_product ` set products" by auto
    with Cons.IH True show ?thesis by (simp add: named_def find_name_known)
  next
    case False
    then show ?thesis by (simp add: named_def find_name_unknown)
  qed
qed

lemma find_append_fresh:
  "i \<notin> id_order ` set xs \<Longrightarrow>
   find (\<lambda>ord. id_order ord = i) (xs @ [x]) = (if id_order x = i then Some x else None)"
  by (induction xs) auto


lemma ceiling_upper: "0 < l \<Longrightarrow> t \<le> \<lceil>real_of_int t / real_of_int l\<rceil> * l"
proof -
  assume l: "0 < l"
  have "real_of_int t = (real_of_int t / real_of_int l) * real_of_int l"
    using l by simp
  also have "\<dots> \<le> of_int \<lceil>real_of_int t / real_of_int l\<rceil> * real_of_int l"
    using l by (intro mult_right_mono le_of_int_ceiling) simp
  also have "\<dots> = real_of_int (\<lceil>real_of_int t / real_of_int l\<rceil> * l)"
    by simp
  finally show ?thesis by (simp only: of_int_le_iff)
qed

lemma ceiling_lower: "0 < l \<Longrightarrow> (\<lceil>real_of_int t / real_of_int l\<rceil> - 1) * l < t"
proof -
  assume l: "0 < l"
  have "real_of_int ((\<lceil>real_of_int t / real_of_int l\<rceil> - 1) * l) =
          (of_int \<lceil>real_of_int t / real_of_int l\<rceil> - 1) * real_of_int l"
    by simp
  also have "\<dots> < (real_of_int t / real_of_int l) * real_of_int l"
    using l ceiling_correct [of "real_of_int t / real_of_int l"]
    by (intro mult_strict_right_mono) simp_all
  also have "\<dots> = real_of_int t"
    using l by simp
  finally show ?thesis by (simp only: of_int_less_iff)
qed


lemma merge_names_known:
  "\<forall>it\<in>set (OrderItem ord). productId it \<in> id_product ` set products \<Longrightarrow>
   merge_names products ord = Inr (with_names products ord)"
  by (simp add: merge_names_def with_names_def mapE_named_known)

lemma merge_names_unknown:
  "\<exists>it\<in>set (OrderItem ord). productId it \<notin> id_product ` set products \<Longrightarrow>
   merge_names products ord = Inl (TypeError ''Cannot read properties of undefined (reading 'name')'')"
  by (simp add: merge_names_def mapE_named_unknown)

lemma findOne_resolved:
  assumes "order_findFirst (db w) i = Some ord"
    and "cat (map productId (OrderItem ord)) = Inr products"
    and "\<forall>it\<in>set (OrderItem ord). productId it \<in> id_product ` set products"
  shows "findOne cat w i =
           (Inr (with_names products ord),
            w\<lparr> sent := sent w @ [validate_products (map productId (OrderItem ord))] \<rparr>)"
  using assms by (simp add: findOne_def send_validate_products_def merge_names_known)

lemma findOne_db: "db (snd (findOne cat w i)) = db w"
  by (auto simp: findOne_def send_validate_products_def Let_def split: option.splits sum.splits)

lemma find_id_None_iff:
  "find (\<lambda>ord. id_order ord = i) xs = None \<longleftrightarrow> i \<notin> id_order ` set xs"
  by (induction xs) auto

lemma order_findFirst_None_iff:
  "order_findFirst s i = None \<longleftrightarrow> i \<notin> id_order ` set (Order_tbl s)"
  by (simp add: order_findFirst_def find_id_None_iff [symmetric] split: option.splits)

lemma find_update_first:
  "(\<And>x. P x \<Longrightarrow> P (f x)) \<Longrightarrow> find P (update_first P f xs) = map_option f (find P xs)"
  by (induction xs) auto

lemma order_findFirst_row:
  "order_findFirst s i = Some ord \<Longrightarrow>
   \<exists>row. find (\<lambda>ord. id_order ord = i) (Order_tbl s) = Some row \<and>
         ord = include_OrderItem row (items_of s i)"
  by (auto simp: order_findFirst_def split: option.splits)

lemma find_id_Some: "find (\<lambda>ord. id_order ord = i) xs = Some row \<Longrightarrow> id_order row = i"
  by (induction xs) (auto split: if_splits)

lemma filter_fst_absent: "i \<notin> fst ` set xs \<Longrightarrow> filter (\<lambda>r. fst r = i) xs = []"
  by (induction xs) auto

section \<open>Properties of create\<close>

text \<open>
  C1 (as the code has it). When the catalog reply lacks the product id of a requested
  item, \<^const>\<open>create\<close> fails and persists nothing: the store is as before, only the
  \<^verbatim>\<open>validate_products\<close> request has been sent. The failure is the \<^verbatim>\<open>TypeError\<close> of
  the unguarded price lookup, not a structured product-not-found failure.
\<close>

theorem create_unknown_product:
  assumes "cat (map productId (items dto)) = Inr products"
    and "\<exists>it\<in>set (items dto). productId it \<notin> id_product ` set products"
  shows "create cat newId now w dto =
           (Inl (TypeError ''Cannot read properties of undefined (reading 'price')''),
            w\<lparr> sent := sent w @ [validate_products (map productId (items dto))] \<rparr>)"
  using assms
  by (simp add: create_def send_validate_products_def totalAmount_reduce_unknown)


theorem create_unknown_product_witness:
  "ex_catalog (map productId (items \<lparr> items = [\<lparr> productId = ''p2'', quantity = 1 \<rparr>] \<rparr>)) = Inr ex_products \<and>
   (\<exists>it\<in>set (items \<lparr> items = [\<lparr> productId = ''p2'', quantity = 1 \<rparr>] \<rparr>).
      productId it \<notin> id_product ` set ex_products) \<and>
   db (snd (create ex_catalog ''o1'' 0 ex_world0 \<lparr> items = [\<lparr> productId = ''p2'', quantity = 1 \<rparr>] \<rparr>)) =
     db ex_world0"
  using create_unknown_product [of ex_catalog "\<lparr> items = [\<lparr> productId = ''p2'', quantity = 1 \<rparr>] \<rparr>"
      ex_products "''o1''" 0 ex_world0]
  by (simp add: ex_catalog_def ex_products_def)

theorem create_unknown_product_counterexample:
  "fst (create ex_catalog ''o1'' 0 ex_world0
          \<lparr> items = [\<lparr> productId = ''p1'', quantity = 2 \<rparr>, \<lparr> productId = ''p2'', quantity = 1 \<rparr>] \<rparr>) =
     Inl (TypeError ''Cannot read properties of undefined (reading 'price')'') \<and>
   \<not> client_error_class (fst (create ex_catalog ''o1'' 0 ex_world0
          \<lparr> items = [\<lparr> productId = ''p1'', quantity = 2 \<rparr>, \<lparr> productId = ''p2'', quantity = 1 \<rparr>] \<rparr>))"
  by (simp add: create_def send_validate_products_def ex_catalog_def ex_products_def
      find_price_def client_error_class_def)

text \<open>
  C3 (as the code has it). \<^const>\<open>create\<close> sends exactly one request to the catalog,
  \<^verbatim>\<open>validate_products\<close> with the product ids of the requested items in the order of
  the request, one id for each item, repeated ids included.
\<close>

theorem create_sends_ids:
  "sent (snd (create cat newId now w dto)) = sent w @ [validate_products (map productId (items dto))]"
  by (auto simp: create_def send_validate_products_def Let_def split: sum.splits prod.splits)



theorem create_sends_ids_witness:
  "sent (snd (create ex_catalog ''o1'' 0 ex_world0 \<lparr> items = [\<lparr> productId = ''p1'', quantity = 2 \<rparr>] \<rparr>)) =
     [validate_products [''p1'']]"
  using create_sends_ids [of ex_catalog "''o1''" 0 ex_world0
      "\<lparr> items = [\<lparr> productId = ''p1'', quantity = 2 \<rparr>] \<rparr>"]
  by (simp add: ex_world0_def)

theorem create_sends_ids_counterexample:
  "sent (snd (create ex_catalog ''o1'' 0 ex_world0
          \<lparr> items = [\<lparr> productId = ''p1'', quantity = 2 \<rparr>, \<lparr> productId = ''p1'', quantity = 3 \<rparr>] \<rparr>)) =
     [validate_products [''p1'', ''p1'']] \<and>
   \<not> distinct [''p1'', ''p1'']"
  by (simp add: create_def send_validate_products_def ex_catalog_def ex_products_def ex_world0_def
      find_price_def priced_def totalItems_reduce_def order_create_def merge_names_def Let_def)




section \<open>Properties of findAll\<close>

text \<open>
  C7. For a positive page and limit and any status filter, \<^const>\<open>findAll\<close> returns
  \<^verbatim>\<open>meta.total\<close> the number of orders the filter selects, \<^verbatim>\<open>meta.lastPage\<close> the
  least number of pages of \<open>limit\<close> orders that hold them all (the ceiling of total by
  limit), and as data the selected orders from offset \<open>(page - 1) * limit\<close> on, at most
  \<open>limit\<close> of them. With 25 orders, limit 10 and page 2 the last page is 3 and the data
  are the orders at offsets 10 to 19.
\<close>

theorem findAll_pagination:
  assumes "0 < page dto" and "0 < limit dto"
  shows "\<exists>r. findAll w dto = Inr r \<and>
           page_meta (meta r) = page dto \<and>
           total_meta (meta r) = int (length (matching w (status_filter dto))) \<and>
           total_meta (meta r) \<le> lastPage (meta r) * limit dto \<and>
           (lastPage (meta r) - 1) * limit dto < total_meta (meta r) \<and>
           data r = take (nat (limit dto))
                      (drop (nat ((page dto - 1) * limit dto)) (matching w (status_filter dto))) \<and>
           int (length (data r)) \<le> limit dto"
proof -
  let ?t = "order_count (db w) (status_filter dto)"
  let ?c = "\<lceil>real_of_int ?t / real_of_int (limit dto)\<rceil>"
  let ?d = "order_findMany (db w) (status_filter dto) ((page dto - 1) * limit dto) (limit dto)"
  let ?r = "\<lparr> data = ?d, meta = \<lparr> page_meta = page dto, total_meta = ?t, lastPage = ?c \<rparr> \<rparr>"
  have res: "findAll w dto = Inr ?r"
    using assms unfolding findAll_def Let_def by simp
  have t: "?t = int (length (matching w (status_filter dto)))"
    by (simp add: order_count_def matching_def)
  have d: "?d = take (nat (limit dto))
                 (drop (nat ((page dto - 1) * limit dto)) (matching w (status_filter dto)))"
    by (simp add: order_findMany_def matching_def)
  have up: "?t \<le> ?c * limit dto"
    using assms(2) by (rule ceiling_upper)
  have low: "(?c - 1) * limit dto < ?t"
    using assms(2) by (rule ceiling_lower)
  have len: "int (length ?d) \<le> limit dto"
    using assms(2) by (simp add: d)
  have "page_meta (meta ?r) = page dto \<and>
        total_meta (meta ?r) = int (length (matching w (status_filter dto))) \<and>
        total_meta (meta ?r) \<le> lastPage (meta ?r) * limit dto \<and>
        (lastPage (meta ?r) - 1) * limit dto < total_meta (meta ?r) \<and>
        data ?r = take (nat (limit dto))
                    (drop (nat ((page dto - 1) * limit dto)) (matching w (status_filter dto))) \<and>
        int (length (data ?r)) \<le> limit dto"
    using t d up low len by simp
  with res show ?thesis by blast
qed

theorem findAll_pagination_witness:
  "0 < (2::int) \<and> 0 < (10::int) \<and>
   (\<exists>r. findAll ex_world25 \<lparr> page = 2, limit = 10, status_filter = None \<rparr> = Inr r \<and>
        total_meta (meta r) = 25 \<and> lastPage (meta r) = 3 \<and> data r = map ex_order [10..<20])"
proof -
  have m: "matching ex_world25 None = map ex_order [0..<25]"
    by (simp add: matching_def ex_world25_def where_status_def)
  from findAll_pagination [of "\<lparr> page = 2, limit = 10, status_filter = None \<rparr>" ex_world25]
  obtain r where r: "findAll ex_world25 \<lparr> page = 2, limit = 10, status_filter = None \<rparr> = Inr r"
    "total_meta (meta r) = 25" "total_meta (meta r) \<le> lastPage (meta r) * 10"
    "(lastPage (meta r) - 1) * 10 < total_meta (meta r)"
    "data r = take 10 (drop 10 (map ex_order [0..<25]))"
    by (auto simp: m)
  from r(2-4) have "lastPage (meta r) = 3" by presburger
  moreover have "take 10 (drop 10 (map ex_order [0..<25])) = map ex_order [10..<20]"
    by (simp add: drop_map take_map)
  ultimately show ?thesis using r by auto
qed

section \<open>Properties of findOne\<close>

text \<open>
  C9. When no order has the id, \<^const>\<open>findOne\<close> fails with the \<^verbatim>\<open>RpcException\<close> whose
  payload has the status \<^verbatim>\<open>NOT_FOUND\<close> (404) and the message
  \<^verbatim>\<open>Order with id <id> not found\<close>. Nothing is sent and nothing is written, and this is
  the only outcome.
\<close>

theorem findOne_not_found:
  assumes "i \<notin> id_order ` set (Order_tbl (db w))"
  shows "findOne cat w i =
           (Inl (RpcException \<lparr> message = ''Order with id '' @ i @ '' not found'', status_code = 404 \<rparr>), w)"
  using assms by (simp add: findOne_def order_findFirst_None_iff [symmetric] HttpStatus_NOT_FOUND_def)

theorem findOne_not_found_witness:
  "''o2'' \<notin> id_order ` set (Order_tbl (db ex_world1)) \<and>
   findOne ex_catalog ex_world1 ''o2'' =
     (Inl (RpcException \<lparr> message = ''Order with id o2 not found'', status_code = 404 \<rparr>), ex_world1)"
  using findOne_not_found [of "''o2''" ex_world1 ex_catalog]
  by (simp add: ex_world1_def ex_stored_def)


text \<open>
  C8. For a stored order whose product ids all appear in the catalog reply,
  \<^const>\<open>findOne\<close> returns the stored lines, in order, each with the product id, quantity
  and price the store holds (the price written at creation, whatever the catalog's price
  is now) and with the name the catalog reply gives for its product id. The store is not
  written.
\<close>

theorem findOne_names_and_prices:
  assumes "order_findFirst (db w) i = Some ord"
    and "cat (map productId (OrderItem ord)) = Inr products"
    and "\<forall>it\<in>set (OrderItem ord). productId it \<in> id_product ` set products"
  shows "\<exists>r w'. findOne cat w i = (Inr r, w') \<and>
           map productId (OrderItem r) = map productId (items_of (db w) i) \<and>
           map quantity (OrderItem r) = map quantity (items_of (db w) i) \<and>
           map price (OrderItem r) = map price (items_of (db w) i) \<and>
           map name (OrderItem r) = map (catalog_name products) (map productId (items_of (db w) i)) \<and>
           db w' = db w"
proof -
  from assms(1) have its: "OrderItem ord = items_of (db w) i"
    by (auto simp: order_findFirst_def include_OrderItem_def split: option.splits)
  have "findOne cat w i =
           (Inr (with_names products ord),
            w\<lparr> sent := sent w @ [validate_products (map productId (OrderItem ord))] \<rparr>)"
    using assms by (rule findOne_resolved)
  then show ?thesis
    using its by (simp add: with_names_def include_OrderItem_def o_def)
qed

theorem findOne_names_and_prices_witness:
  "order_findFirst (db ex_world1) ''o1'' =
     Some (include_OrderItem ex_stored [\<lparr> productId = ''p1'', quantity = 2, price = 5 \<rparr>]) \<and>
   (\<exists>r w'. findOne ex_catalog_later ex_world1 ''o1'' = (Inr r, w') \<and>
      OrderItem r = [\<lparr> productId = ''p1'', quantity = 2, price = 5, name = ''Gadget'' \<rparr>])"
proof -
  have f: "order_findFirst (db ex_world1) ''o1'' =
     Some (include_OrderItem ex_stored [\<lparr> productId = ''p1'', quantity = 2, price = 5 \<rparr>])"
    by (simp add: order_findFirst_def ex_world1_def ex_stored_def items_of_def)
  from findOne_names_and_prices [OF f, of ex_catalog_later
      "[\<lparr> id_product = ''p1'', name_product = ''Gadget'', price_product = 9 \<rparr>]"]
  obtain r w' where r: "findOne ex_catalog_later ex_world1 ''o1'' = (Inr r, w')"
    "map productId (OrderItem r) = [''p1'']" "map quantity (OrderItem r) = [2]"
    "map price (OrderItem r) = [5]" "map name (OrderItem r) = [''Gadget'']"
    by (auto simp: ex_catalog_later_def include_OrderItem_def items_of_def ex_world1_def)
  then have "OrderItem r = [\<lparr> productId = ''p1'', quantity = 2, price = 5, name = ''Gadget'' \<rparr>]"
    by (cases "OrderItem r") auto
  with f r(1) show ?thesis by blast
qed


text \<open>
  C10. For a stored order, when the catalog reply lacks the product id of one of its
  lines, \<^const>\<open>findOne\<close> returns no order: it fails with the \<^verbatim>\<open>TypeError\<close> of the
  unguarded name lookup.
\<close>

theorem findOne_catalog_omits:
  assumes "order_findFirst (db w) i = Some ord"
    and "cat (map productId (OrderItem ord)) = Inr products"
    and "\<exists>it\<in>set (OrderItem ord). productId it \<notin> id_product ` set products"
  shows "findOne cat w i =
           (Inl (TypeError ''Cannot read properties of undefined (reading 'name')''),
            w\<lparr> sent := sent w @ [validate_products (map productId (OrderItem ord))] \<rparr>)"
  using assms by (simp add: findOne_def send_validate_products_def merge_names_unknown)


theorem findOne_catalog_omits_witness:
  "order_findFirst (db ex_world1) ''o1'' = Some ex_found \<and>
   ex_catalog_drifted (map productId (OrderItem ex_found)) = Inr [] \<and>
   (\<exists>it\<in>set (OrderItem ex_found). productId it \<notin> id_product ` set []) \<and>
   fst (findOne ex_catalog_drifted ex_world1 ''o1'') =
     Inl (TypeError ''Cannot read properties of undefined (reading 'name')'')"
  using findOne_catalog_omits [of ex_world1 "''o1''" ex_found ex_catalog_drifted "[]"]
  by (simp add: order_findFirst_def ex_world1_def ex_stored_def ex_found_def items_of_def
      ex_catalog_drifted_def include_OrderItem_def)

section \<open>Properties of changeStatus\<close>

text \<open>
  C5 (as the code has it). For a stored order, \<^const>\<open>changeStatus\<close> with the status
  the order already has writes nothing to the store, whatever the catalog answers; and
  when the catalog reply has the product ids of all its lines, it returns the order as
  stored, with its lines named.
\<close>

theorem changeStatus_same_status:
  assumes "order_findFirst (db w) i = Some ord"
    and "status ord = s"
  shows "db (snd (changeStatus cat w \<lparr> id_dto = i, status_dto = s \<rparr>)) = db w \<and>
         (cat (map productId (OrderItem ord)) = Inr products \<longrightarrow>
          (\<forall>it\<in>set (OrderItem ord). productId it \<in> id_product ` set products) \<longrightarrow>
          changeStatus cat w \<lparr> id_dto = i, status_dto = s \<rparr> =
            (Inr (Unchanged (with_names products ord)),
             w\<lparr> sent := sent w @ [validate_products (map productId (OrderItem ord))] \<rparr>))"
proof (intro conjI impI)
  have st: "\<And>products. status (with_names products ord) = s"
    using assms(2) by (simp add: with_names_def include_OrderItem_def Order.truncate_def)
  show "db (snd (changeStatus cat w \<lparr> id_dto = i, status_dto = s \<rparr>)) = db w"
  proof (cases "cat (map productId (OrderItem ord))")
    case (Inl e)
    with assms(1) show ?thesis
      by (simp add: changeStatus_def findOne_def send_validate_products_def)
  next
    case (Inr products)
    show ?thesis
    proof (cases "\<forall>it\<in>set (OrderItem ord). productId it \<in> id_product ` set products")
      case True
      with assms(1) Inr show ?thesis
        by (simp add: changeStatus_def findOne_resolved st)
    next
      case False
      with assms(1) Inr show ?thesis
        by (simp add: changeStatus_def findOne_def send_validate_products_def merge_names_unknown)
    qed
  qed
next
  assume "cat (map productId (OrderItem ord)) = Inr products"
    and "\<forall>it\<in>set (OrderItem ord). productId it \<in> id_product ` set products"
  with assms(1) have "findOne cat w i =
           (Inr (with_names products ord),
            w\<lparr> sent := sent w @ [validate_products (map productId (OrderItem ord))] \<rparr>)"
    by (rule findOne_resolved)
  moreover have "status (with_names products ord) = s"
    using assms(2) by (simp add: with_names_def include_OrderItem_def Order.truncate_def)
  ultimately show "changeStatus cat w \<lparr> id_dto = i, status_dto = s \<rparr> =
            (Inr (Unchanged (with_names products ord)),
             w\<lparr> sent := sent w @ [validate_products (map productId (OrderItem ord))] \<rparr>)"
    by (simp add: changeStatus_def)
qed


theorem changeStatus_same_status_witness:
  "order_findFirst (db ex_world1) ''o1'' = Some ex_found \<and>
   status ex_found = PENDING \<and>
   db (snd (changeStatus ex_catalog ex_world1 \<lparr> id_dto = ''o1'', status_dto = PENDING \<rparr>)) = db ex_world1 \<and>
   fst (changeStatus ex_catalog ex_world1 \<lparr> id_dto = ''o1'', status_dto = PENDING \<rparr>) =
     Inr (Unchanged (with_names ex_products ex_found))"
  using changeStatus_same_status [of ex_world1 "''o1''" ex_found PENDING ex_catalog ex_products]
  by (simp add: order_findFirst_def ex_world1_def ex_stored_def ex_found_def items_of_def
      ex_catalog_def ex_products_def include_OrderItem_def)

theorem changeStatus_same_status_counterexample:
  "order_findFirst (db ex_world1) ''o1'' = Some ex_found \<and>
   status ex_found = PENDING \<and>
   fst (changeStatus ex_catalog_drifted ex_world1 \<lparr> id_dto = ''o1'', status_dto = PENDING \<rparr>) =
     Inl (TypeError ''Cannot read properties of undefined (reading 'name')'')"
  by (simp add: changeStatus_def findOne_def send_validate_products_def order_findFirst_def
      ex_world1_def ex_stored_def ex_found_def items_of_def ex_catalog_drifted_def
      include_OrderItem_def merge_names_def named_def find_name_def)

text \<open>
  C6 (as the code has it). For a stored order whose product ids all appear in the catalog
  reply and a status \<open>s\<close> other than its current one, \<^const>\<open>changeStatus\<close> returns the updated order with status \<open>s\<close>,
  the store then holds the order with status \<open>s\<close> and everything else as before, and a
  following \<^const>\<open>findOne\<close> returns it with status \<open>s\<close>.
\<close>

theorem changeStatus_updates:
  assumes "order_findFirst (db w) i = Some ord"
    and "cat (map productId (OrderItem ord)) = Inr products"
    and "\<forall>it\<in>set (OrderItem ord). productId it \<in> id_product ` set products"
    and "status ord \<noteq> s"
  shows "\<exists>row w2. changeStatus cat w \<lparr> id_dto = i, status_dto = s \<rparr> = (Inr (Updated row), w2) \<and>
           id_order row = i \<and> status row = s \<and>
           order_findFirst (db w2) i = Some (ord\<lparr> status := s \<rparr>) \<and>
           (\<exists>w3. findOne cat w2 i = (Inr (with_names products (ord\<lparr> status := s \<rparr>)), w3))"
proof -
  let ?w1 = "w\<lparr> sent := sent w @ [validate_products (map productId (OrderItem ord))] \<rparr>"
  let ?f = "\<lambda>row::Order. row\<lparr> status := s \<rparr>"
  from assms(1) obtain row where
    row: "find (\<lambda>ord. id_order ord = i) (Order_tbl (db w)) = Some row"
    and ord: "ord = include_OrderItem row (items_of (db w) i)"
    by (auto dest: order_findFirst_row)
  from row have idr: "id_order row = i" by (rule find_id_Some)
  let ?s = "(db w)\<lparr> Order_tbl := update_first (\<lambda>ord. id_order ord = i) ?f (Order_tbl (db w)) \<rparr>"
  let ?w2 = "?w1\<lparr> db := ?s \<rparr>"
  have f1: "findOne cat w i = (Inr (with_names products ord), ?w1)"
    using assms(1-3) by (rule findOne_resolved)
  have st: "status (with_names products ord) \<noteq> s"
    using assms(4) by (simp add: with_names_def include_OrderItem_def Order.truncate_def)
  have upd: "order_update (db w) i ?f None = Inr (?f row, ?s)"
    using row by (simp add: order_update_def)
  have cs: "changeStatus cat w \<lparr> id_dto = i, status_dto = s \<rparr> = (Inr (Updated (?f row)), ?w2)"
    using st by (simp add: changeStatus_def f1 upd)
  have "find (\<lambda>ord. id_order ord = i) (Order_tbl ?s) = Some (?f row)"
    using row by (simp add: find_update_first)
  moreover have "items_of ?s i = items_of (db w) i"
    by (simp add: items_of_def)
  ultimately have ff: "order_findFirst (db ?w2) i = Some (ord\<lparr> status := s \<rparr>)"
    by (simp add: order_findFirst_def ord include_OrderItem_def)
  have "findOne cat ?w2 i =
          (Inr (with_names products (ord\<lparr> status := s \<rparr>)),
           ?w2\<lparr> sent := sent ?w2 @ [validate_products (map productId (OrderItem (ord\<lparr> status := s \<rparr>)))] \<rparr>)"
    using ff assms(2,3) by (intro findOne_resolved) simp_all
  with cs idr ff show ?thesis by auto
qed


theorem changeStatus_updates_witness:
  "order_findFirst (db ex_world1) ''o1'' = Some ex_found \<and>
   ex_catalog (map productId (OrderItem ex_found)) = Inr ex_products \<and>
   set (map productId (OrderItem ex_found)) \<subseteq> id_product ` set ex_products \<and>
   status ex_found \<noteq> DELIVERED \<and>
   (\<exists>row w2. changeStatus ex_catalog ex_world1 \<lparr> id_dto = ''o1'', status_dto = DELIVERED \<rparr> =
        (Inr (Updated row), w2) \<and> status row = DELIVERED \<and>
      (\<exists>w3. findOne ex_catalog w2 ''o1'' =
         (Inr (with_names ex_products (ex_found\<lparr> status := DELIVERED \<rparr>)), w3)))"
proof -
  have h: "order_findFirst (db ex_world1) ''o1'' = Some ex_found"
    "ex_catalog (map productId (OrderItem ex_found)) = Inr ex_products"
    "\<forall>it\<in>set (OrderItem ex_found). productId it \<in> id_product ` set ex_products"
    "status ex_found \<noteq> DELIVERED"
    by (simp_all add: order_findFirst_def ex_world1_def ex_stored_def ex_found_def items_of_def
        ex_catalog_def ex_products_def include_OrderItem_def)
  from changeStatus_updates [of ex_world1 "''o1''" ex_found ex_catalog ex_products DELIVERED] h
  show ?thesis by auto
qed

theorem changeStatus_updates_counterexample:
  "order_findFirst (db ex_world1) ''o1'' = Some ex_found \<and>
   status ex_found \<noteq> DELIVERED \<and>
   changeStatus ex_catalog_drifted ex_world1 \<lparr> id_dto = ''o1'', status_dto = DELIVERED \<rparr> =
     (Inl (TypeError ''Cannot read properties of undefined (reading 'name')''),
      ex_world1\<lparr> sent := [validate_products [''p1'']] \<rparr>) \<and>
   order_findFirst
     (db (snd (changeStatus ex_catalog_drifted ex_world1 \<lparr> id_dto = ''o1'', status_dto = DELIVERED \<rparr>)))
     ''o1'' = Some ex_found"
  by (simp add: changeStatus_def findOne_def send_validate_products_def order_findFirst_def
      ex_world1_def ex_stored_def ex_found_def items_of_def ex_catalog_drifted_def
      include_OrderItem_def merge_names_def named_def find_name_def)

section \<open>Properties of paidOrder\<close>

text \<open>
  C2 (as the code has it). When \<^const>\<open>paidOrder\<close> succeeds, the order is paid, has the
  status \<^const>\<open>PAID\<close>, the time and the charge id of the payment, and exactly one
  receipt. A second application with the same payload is rejected by the store, because
  the order already has its receipt: it raises the store's failure and leaves everything
  as the first application left it, so there is no second receipt.
\<close>

theorem paidOrder_twice:
  assumes "paidOrder now w dto = (Inr ord, w1)"
  shows "paid ord \<and> status ord = PAID \<and> paidAt ord = Some now \<and>
         stripeChargeId ord = Some (stripePaymentId dto) \<and>
         (\<exists>row. order_findFirst (db w1) (orderId dto) = Some row \<and> paid row \<and> status row = PAID) \<and>
         filter (\<lambda>r. fst r = orderId dto) (OrderReceipt_tbl (db w1)) = [(orderId dto, receiptUrl dto)] \<and>
         paidOrder now' w1 dto = (Inl (PrismaError UniqueConstraintFailed), w1)"
proof -
  let ?i = "orderId dto"
  let ?f = "\<lambda>row::Order. row\<lparr> status := PAID, paid := True, paidAt := Some now,
                          stripeChargeId := Some (stripePaymentId dto) \<rparr>"
  from assms obtain row where
    row: "find (\<lambda>ord. id_order ord = ?i) (Order_tbl (db w)) = Some row"
    and nr: "?i \<notin> set (map fst (OrderReceipt_tbl (db w)))"
    and o: "ord = ?f row"
    and w1: "w1 = w\<lparr> db := (db w)\<lparr> Order_tbl := update_first (\<lambda>ord. id_order ord = ?i) ?f (Order_tbl (db w)),
                                 OrderReceipt_tbl := OrderReceipt_tbl (db w) @ [(?i, receiptUrl dto)] \<rparr> \<rparr>"
    by (auto simp: paidOrder_def order_update_def Let_def split: option.splits if_splits)
  have fnd: "find (\<lambda>ord. id_order ord = ?i) (Order_tbl (db w1)) = Some (?f row)"
    using row by (simp add: w1 find_update_first)
  have a: "paid ord \<and> status ord = PAID \<and> paidAt ord = Some now \<and>
         stripeChargeId ord = Some (stripePaymentId dto)"
    by (simp add: o)
  have b: "\<exists>row. order_findFirst (db w1) ?i = Some row \<and> paid row \<and> status row = PAID"
    using fnd by (simp add: order_findFirst_def include_OrderItem_def)
  have c: "filter (\<lambda>r. fst r = ?i) (OrderReceipt_tbl (db w1)) = [(?i, receiptUrl dto)]"
    using nr by (simp add: w1 filter_fst_absent)
  have d: "paidOrder now' w1 dto = (Inl (PrismaError UniqueConstraintFailed), w1)"
    using fnd by (simp add: paidOrder_def order_update_def w1)
  from a b c d show ?thesis by blast
qed


theorem paidOrder_twice_witness:
  "paidOrder 1 ex_world1 ex_paid = (Inr ex_paid_order, ex_world1_paid) \<and>
   filter (\<lambda>r. fst r = orderId ex_paid) (OrderReceipt_tbl (db ex_world1_paid)) =
     [(''o1'', ''https://pay.example/r/1'')] \<and>
   paidOrder 2 ex_world1_paid ex_paid = (Inl (PrismaError UniqueConstraintFailed), ex_world1_paid)"
proof -
  have h: "paidOrder 1 ex_world1 ex_paid = (Inr ex_paid_order, ex_world1_paid)"
    by (simp add: paidOrder_def order_update_def ex_world1_def ex_stored_def ex_paid_def
        ex_paid_order_def ex_world1_paid_def)
  from paidOrder_twice [OF h, of 2] h show ?thesis by (simp add: ex_paid_def)
qed

theorem paidOrder_twice_counterexample:
  "fst (paidOrder 1 ex_world1 ex_paid) = Inr ex_paid_order \<and>
   fst (paidOrder 2 (snd (paidOrder 1 ex_world1 ex_paid)) ex_paid) =
     Inl (PrismaError UniqueConstraintFailed)"
  by (simp add: paidOrder_def order_update_def ex_world1_def ex_stored_def ex_paid_def
      ex_paid_order_def)

section \<open>Failures of the catalog, and the lines of an order over time\<close>

text \<open>
  A failure of the catalog is rethrown with the catalog's payload; \<^const>\<open>create\<close> then
  persists nothing.
\<close>

lemma create_catalog_failure:
  "cat (map productId (items dto)) = Inl err \<Longrightarrow>
   create cat newId now w dto =
     (Inl (RpcException err), w\<lparr> sent := sent w @ [validate_products (map productId (items dto))] \<rparr>)"
  by (simp add: create_def send_validate_products_def)

lemma findOne_catalog_failure:
  "order_findFirst (db w) i = Some ord \<Longrightarrow> cat (map productId (OrderItem ord)) = Inl err \<Longrightarrow>
   findOne cat w i =
     (Inl (RpcException err), w\<lparr> sent := sent w @ [validate_products (map productId (OrderItem ord))] \<rparr>)"
  by (simp add: findOne_def send_validate_products_def)

text \<open>
  \<^const>\<open>changeStatus\<close> loads the order through \<^const>\<open>findOne\<close> before it compares
  the status: when the catalog fails, or its reply lacks a product of the order, it raises
  that failure and writes nothing, whatever the requested status.
\<close>

lemma changeStatus_catalog_failure:
  "order_findFirst (db w) i = Some ord \<Longrightarrow> cat (map productId (OrderItem ord)) = Inl err \<Longrightarrow>
   changeStatus cat w \<lparr> id_dto = i, status_dto = s \<rparr> =
     (Inl (RpcException err), w\<lparr> sent := sent w @ [validate_products (map productId (OrderItem ord))] \<rparr>)"
  by (simp add: changeStatus_def findOne_catalog_failure)

lemma changeStatus_catalog_omits:
  "order_findFirst (db w) i = Some ord \<Longrightarrow> cat (map productId (OrderItem ord)) = Inr products \<Longrightarrow>
   \<exists>it\<in>set (OrderItem ord). productId it \<notin> id_product ` set products \<Longrightarrow>
   changeStatus cat w \<lparr> id_dto = i, status_dto = s \<rparr> =
     (Inl (TypeError ''Cannot read properties of undefined (reading 'name')''),
      w\<lparr> sent := sent w @ [validate_products (map productId (OrderItem ord))] \<rparr>)"
  by (simp add: changeStatus_def findOne_def send_validate_products_def merge_names_unknown)

text \<open>
  No operation edits the lines of an order once they are written: \<^const>\<open>changeStatus\<close>
  and \<^const>\<open>paidOrder\<close> leave the lines of every order alone, and \<^const>\<open>create\<close>
  those of every other order.
\<close>

lemma changeStatus_items: "items_of (db (snd (changeStatus cat w dto))) j = items_of (db w) j"
proof -
  have "db (snd (findOne cat w (id_dto dto))) = db w" by (rule findOne_db)
  then show ?thesis
    by (auto simp: changeStatus_def order_update_def Let_def items_of_def
        split: prod.splits sum.splits option.splits if_splits)
qed

lemma paidOrder_items: "items_of (db (snd (paidOrder now w dto))) j = items_of (db w) j"
  by (auto simp: paidOrder_def order_update_def Let_def items_of_def
      split: prod.splits sum.splits option.splits if_splits)

lemma create_items_other:
  "j \<noteq> newId \<Longrightarrow> items_of (db (snd (create cat newId now w dto))) j = items_of (db w) j"
  by (auto simp: create_def send_validate_products_def order_create_def Let_def items_of_def
      split: prod.splits sum.splits option.splits if_splits)

text \<open>
  What a successful \<^const>\<open>create\<close> has done, and the snapshot from end to end: an order
  created against one catalog and read against another has the prices of the first and
  the names of the second.
\<close>

lemma create_success:
  assumes "create cat newId now w dto = (Inr r, w1)"
  shows "\<exists>products.
           cat (map productId (items dto)) = Inr products \<and>
           (\<forall>it\<in>set (items dto). productId it \<in> id_product ` set products) \<and>
           newId \<notin> id_order ` set (Order_tbl (db w)) \<and>
           Order_tbl (db w1) = Order_tbl (db w) @ [Order.truncate r] \<and>
           OrderItem_tbl (db w1) = OrderItem_tbl (db w) @
             map (\<lambda>it. (newId, \<lparr> productId = productId it, quantity = quantity it,
                                  price = catalog_price products (productId it) \<rparr>)) (items dto) \<and>
           id_order r = newId \<and>
           map price (OrderItem r) = map (\<lambda>it. catalog_price products (productId it)) (items dto)"
proof (cases "cat (map productId (items dto))")
  case (Inl err)
  with assms show ?thesis by (simp add: create_def send_validate_products_def)
next
  case (Inr products)
  show ?thesis
  proof (cases "\<forall>it\<in>set (items dto). productId it \<in> id_product ` set products")
    case False
    then have "\<exists>it\<in>set (items dto). productId it \<notin> id_product ` set products" by blast
    with assms Inr show ?thesis
      by (simp add: create_def send_validate_products_def totalAmount_reduce_unknown)
  next
    case True
    then have known: "\<forall>it\<in>set (map (\<lambda>it. \<lparr> productId = productId it, quantity = quantity it,
                       price = catalog_price products (productId it) \<rparr>) (items dto)).
                       productId it \<in> id_product ` set products"
      by simp
    show ?thesis
    proof (cases "newId \<in> id_order ` set (Order_tbl (db w))")
      case True
      with assms Inr \<open>\<forall>it\<in>set (items dto). productId it \<in> id_product ` set products\<close>
      show ?thesis
        by (simp add: create_def send_validate_products_def totalAmount_reduce_known
            totalItems_reduce_sum mapE_priced_known order_create_def)
    next
      case False
      with assms Inr True known show ?thesis
        by (auto simp: create_def send_validate_products_def totalAmount_reduce_known
            totalItems_reduce_sum mapE_priced_known order_create_def Let_def merge_names_def
            mapE_named_known include_OrderItem_def Order.truncate_def o_def)
    qed
  qed
qed

lemma create_then_findOne:
  assumes "create cat newId now w dto = (Inr r, w1)"
    and "newId \<notin> fst ` set (OrderItem_tbl (db w))"
    and "cat' (map productId (items dto)) = Inr products'"
    and "\<forall>it\<in>set (items dto). productId it \<in> id_product ` set products'"
  shows "\<exists>r' w2. findOne cat' w1 newId = (Inr r', w2) \<and>
           map price (OrderItem r') = map price (OrderItem r) \<and>
           map name (OrderItem r') = map (\<lambda>it. catalog_name products' (productId it)) (items dto)"
proof -
  from create_success [OF assms(1)] obtain products where
    fresh: "newId \<notin> id_order ` set (Order_tbl (db w))"
    and tbl: "Order_tbl (db w1) = Order_tbl (db w) @ [Order.truncate r]"
    and itb: "OrderItem_tbl (db w1) = OrderItem_tbl (db w) @
             map (\<lambda>it. (newId, \<lparr> productId = productId it, quantity = quantity it,
                                  price = catalog_price products (productId it) \<rparr>)) (items dto)"
    and idr: "id_order r = newId"
    and pr: "map price (OrderItem r) = map (\<lambda>it. catalog_price products (productId it)) (items dto)"
    by blast
  let ?its = "map (\<lambda>it. \<lparr> productId = productId it, quantity = quantity it,
                          price = catalog_price products (productId it) \<rparr>) (items dto)"
  have "filter (\<lambda>row. fst row = newId) (OrderItem_tbl (db w)) = []"
    using assms(2) by (rule filter_fst_absent)
  then have io: "items_of (db w1) newId = ?its"
    by (simp add: items_of_def itb o_def filter_map)
  have "find (\<lambda>ord. id_order ord = newId) (Order_tbl (db w1)) = Some (Order.truncate r)"
    using fresh idr by (simp add: tbl find_append_fresh Order.truncate_def)
  then have ff: "order_findFirst (db w1) newId = Some (include_OrderItem (Order.truncate r) ?its)"
    by (simp add: order_findFirst_def io)
  have "findOne cat' w1 newId =
          (Inr (with_names products' (include_OrderItem (Order.truncate r) ?its)),
           w1\<lparr> sent := sent w1 @ [validate_products (map productId
                   (OrderItem (include_OrderItem (Order.truncate r) ?its)))] \<rparr>)"
    using ff assms(3,4) by (intro findOne_resolved) (simp_all add: include_OrderItem_def o_def)
  then show ?thesis
    by (simp add: with_names_def include_OrderItem_def o_def pr)
qed


end
